theory Spec2Isabelle
  imports Main "HOL-Library.Word"
begin

section \<open>Values crossing the bridge\<close>

text \<open>
  The file \<^verbatim>\<open>internal/repository/rpc/sfc_delegation.go\<close> holds the delegation queries of
  the chain bridge. Each method takes the staker address and the validator id through Go
  pointers and dereferences them without a nil test; the model takes the values pointed
  to, so it describes the calls made with non-nil arguments. Logging calls are left out
  there: they do not touch any returned value. \<^verbatim>\<open>DelegationLock\<close> is the exception. Its
  deferred function runs after a fault and reads both pointers again for its log line, so
  its two pointer arguments are options, \<open>None\<close> standing for nil, and that log line is
  part of the model.

  \<^item> \<^verbatim>\<open>common.Address\<close> is a 20 byte array: a 160 bit word.
  \<^item> \<^verbatim>\<open>big.Int\<close> and \<^verbatim>\<open>hexutil.Big\<close> are unbounded integers: \<open>int\<close>.
  \<^item> \<^verbatim>\<open>hexutil.Uint64\<close> is a 64 bit word.
  \<^item> \<^verbatim>\<open>[]byte\<close> is a list of 8 bit words; the nil slice is the empty list.
  \<^item> A nullable pointer result (\<^verbatim>\<open>*big.Int\<close>, \<^verbatim>\<open>*types.DelegationLock\<close>) and the
    \<^verbatim>\<open>error\<close> interface are options, \<open>None\<close> standing for nil.
\<close>

type_synonym address = "160 word"
type_synonym byte = "8 word"
type_synonym uint64 = "64 word"

datatype error = Error string

text \<open>A Go call either returns its results or ends in a runtime panic.\<close>

datatype 'a outcome = Panics | Returns 'a

text \<open>
  \<^verbatim>\<open>new(big.Int).SetBytes(buf)\<close> reads \<open>buf\<close> as a big-endian unsigned number;
  \<^verbatim>\<open>x.Uint64()\<close> is the low 64 bits of the magnitude of \<open>x\<close>.
\<close>

definition SetBytes :: "byte list \<Rightarrow> int" where
  "SetBytes buf = foldl (\<lambda>z b. z * 256 + uint b) 0 buf"

definition Uint64 :: "int \<Rightarrow> uint64" where
  "Uint64 x = word_of_int \<bar>x\<bar>"

subsection \<open>Result records (package types)\<close>

record PendingRewards =
  Address :: address
  Staker :: int
  Amount :: int

record DelegationLock =
  LockedAmount :: int
  LockedFromEpoch :: uint64
  LockedUntil :: uint64
  Duration :: uint64

text \<open>The zero value \<^verbatim>\<open>types.DelegationLock{}\<close>.\<close>

definition DelegationLock_zero :: DelegationLock where
  "DelegationLock_zero =
     \<lparr>LockedAmount = 0, LockedFromEpoch = 0, LockedUntil = 0, Duration = 0\<rparr>"

section \<open>The collaborators of the bridge\<close>

text \<open>
  The contract bindings, the ABI packer and the node client are not part of the file; the
  bridge is parameterised by them. Every binding method is a function of its arguments
  (the call options of \<^verbatim>\<open>DefaultCallOpts\<close> are fixed for a bridge) that returns the
  pair of results Go returns, or panics.
\<close>

type_synonym amount_result = "(int option \<times> error option) outcome"

text \<open>The anonymous struct returned by \<^verbatim>\<open>GetLockupInfo\<close>: four \<^verbatim>\<open>*big.Int\<close> fields.\<close>

record LockupInfo =
  LockedStake :: "int option"
  FromEpoch :: "int option"
  EndTime :: "int option"
  LockDuration :: "int option"

record SfcContract =
  GetStake :: "address \<Rightarrow> int \<Rightarrow> amount_result"
  GetLockedStake :: "address \<Rightarrow> int \<Rightarrow> amount_result"
  GetUnlockedStake :: "address \<Rightarrow> int \<Rightarrow> amount_result"
  ContractPendingRewards :: "address \<Rightarrow> int \<Rightarrow> amount_result"
  GetLockupInfo :: "address \<Rightarrow> int option \<Rightarrow> (LockupInfo \<times> error option) outcome"

record SfcTokenizer =
  OutstandingSCoin :: "address \<Rightarrow> int \<Rightarrow> amount_result"
  AllowedToWithdrawStake :: "address \<Rightarrow> int \<Rightarrow> (bool \<times> error option) outcome"

text \<open>\<^verbatim>\<open>ethereum.CallMsg\<close>; the fields the bridge leaves unset keep their zero value.\<close>

record CallMsg =
  From :: address
  To :: "address option"
  Data :: "byte list"

record SfcConfig =
  SFCContract :: address
  TokenizerContract :: address

record ChainBridge =
  sfcConfig :: SfcConfig
  SfcContract :: SfcContract
  SfcAbiPack :: "string \<Rightarrow> int list \<Rightarrow> (byte list \<times> error option) outcome"
  CallContract :: "CallMsg \<Rightarrow> int option \<Rightarrow> (byte list \<times> error option) outcome"
  NewSfcTokenizer :: "address \<Rightarrow> (SfcTokenizer option \<times> error option) outcome"

section \<open>The delegation queries\<close>

definition AmountStaked :: "ChainBridge \<Rightarrow> address \<Rightarrow> int \<Rightarrow> amount_result" where
  "AmountStaked chain addr valID = GetStake (SfcContract chain) addr valID"

definition AmountStakeLocked :: "ChainBridge \<Rightarrow> address \<Rightarrow> int \<Rightarrow> amount_result" where
  "AmountStakeLocked chain addr valID = GetLockedStake (SfcContract chain) addr valID"

definition AmountStakeUnlocked :: "ChainBridge \<Rightarrow> address \<Rightarrow> int \<Rightarrow> amount_result" where
  "AmountStakeUnlocked chain addr valID = GetUnlockedStake (SfcContract chain) addr valID"

text \<open>
  \<^verbatim>\<open>StakeUnlockPenalty\<close>: the size check returns the variable \<open>err\<close> of the call before
  it, as the source does.
\<close>

definition StakeUnlockPenalty ::
  "ChainBridge \<Rightarrow> address \<Rightarrow> int \<Rightarrow> int \<Rightarrow> amount_result" where
  "StakeUnlockPenalty chain addr valID amount =
     (case SfcAbiPack chain ''unlockStake'' [valID, amount] of
        Panics \<Rightarrow> Panics
      | Returns (cd, err) \<Rightarrow>
          if err \<noteq> None then Returns (None, err)
          else
            (case CallContract chain
                    \<lparr>From = addr, To = Some (SFCContract (sfcConfig chain)), Data = cd\<rparr> None of
               Panics \<Rightarrow> Panics
             | Returns (data, err) \<Rightarrow>
                 if err \<noteq> None then Returns (None, err)
                 else if length data \<noteq> 32 then Returns (None, err)
                 else Returns (Some (SetBytes data), None)))"

text \<open>
  \<^verbatim>\<open>PendingRewards\<close>: the record is prepared with a zero amount before the query; the
  dereference \<^verbatim>\<open>*amo\<close> of a nil amount is a panic.
\<close>

definition PendingRewards ::
  "ChainBridge \<Rightarrow> address \<Rightarrow> int \<Rightarrow> (PendingRewards option \<times> error option) outcome" where
  "PendingRewards chain addr valID =
     (let pr = \<lparr>Address = addr, Staker = valID, Amount = 0\<rparr> in
      case ContractPendingRewards (SfcContract chain) addr valID of
        Panics \<Rightarrow> Panics
      | Returns (amo, err) \<Rightarrow>
          if err \<noteq> None then Returns (Some pr, None)
          else
            (case amo of
               None \<Rightarrow> Panics
             | Some a \<Rightarrow> Returns (Some (pr\<lparr>Amount := a\<rparr>), None)))"

text \<open>
  \<^verbatim>\<open>DelegationLock\<close> has the named results \<open>(dll, err)\<close> and a deferred function that
  recovers from a panic. The body is modelled with the values of the named results at
  the moment it ends: \<open>Normal\<close> after a return statement has assigned them, \<open>Faulted\<close>
  when a panic interrupts it. The arguments of the \<^verbatim>\<open>GetLockupInfo\<close> call are evaluated
  before the call: \<^verbatim>\<open>*addr\<close> faults on a nil address, while \<^verbatim>\<open>valID.ToInt()\<close> is a
  pointer conversion that hands a nil validator id on to the binding. The short
  declaration \<^verbatim>\<open>lock, err := ...\<close> at the top level of the body assigns the named result
  \<open>err\<close>. The fields of the returned record are evaluated in the order written:
  \<^verbatim>\<open>*lock.LockedStake\<close> first, the three \<^verbatim>\<open>Uint64()\<close> calls after it.
\<close>

type_synonym lock_results = "DelegationLock option \<times> error option"

datatype ending = Normal lock_results | Faulted lock_results

definition DelegationLock_body ::
  "ChainBridge \<Rightarrow> address option \<Rightarrow> int option \<Rightarrow> ending" where
  "DelegationLock_body chain addr valID =
     (case addr of
        None \<Rightarrow> Faulted (None, None)
      | Some a \<Rightarrow>
          (case GetLockupInfo (SfcContract chain) a valID of
             Panics \<Rightarrow> Faulted (None, None)
           | Returns (lock, err) \<Rightarrow>
               if err \<noteq> None then Normal (None, err)
               else
                 (case (FromEpoch lock, EndTime lock) of
                    (Some fromEpoch, Some endTime) \<Rightarrow>
                      (case LockedStake lock of
                         None \<Rightarrow> Faulted (None, err)
                       | Some lockedStake \<Rightarrow>
                           (case LockDuration lock of
                              None \<Rightarrow> Faulted (None, err)
                            | Some duration \<Rightarrow>
                                Normal (Some \<lparr>LockedAmount = lockedStake,
                                              LockedFromEpoch = Uint64 fromEpoch,
                                              LockedUntil = Uint64 endTime,
                                              Duration = Uint64 duration\<rparr>, None)))
                  | _ \<Rightarrow> Normal (None, Some (Error ''delegation lock missing'')))))"

text \<open>
  The deferred function. When the body returned, \<^verbatim>\<open>recover()\<close> is nil and the results
  stand. After a panic it first builds its log line from \<^verbatim>\<open>addr.String()\<close> and
  \<^verbatim>\<open>valID.String()\<close>, in this order: the first is a method on the address value, the
  second reads the number behind the pointer, so each faults on a nil pointer, and that
  second panic leaves the method. Only after the log line is \<open>dll\<close> replaced; \<open>err\<close> is
  left alone.
\<close>

definition DelegationLock_deferred ::
  "address option \<Rightarrow> int option \<Rightarrow> ending \<Rightarrow> lock_results outcome" where
  "DelegationLock_deferred addr valID e =
     (case e of
        Normal (dll, err) \<Rightarrow> Returns (dll, err)
      | Faulted (dll, err) \<Rightarrow>
          (case addr of
             None \<Rightarrow> Panics
           | Some a \<Rightarrow>
               (case valID of
                  None \<Rightarrow> Panics
                | Some v \<Rightarrow> Returns (Some DelegationLock_zero, err))))"

definition DelegationLock ::
  "ChainBridge \<Rightarrow> address option \<Rightarrow> int option \<Rightarrow> lock_results outcome" where
  "DelegationLock chain addr valID =
     DelegationLock_deferred addr valID (DelegationLock_body chain addr valID)"

text \<open>
  The tokenizer queries bind the tokenizer contract on every call. A nil binding
  returned without an error faults at the method call.
\<close>

definition DelegationOutstandingSCoin :: "ChainBridge \<Rightarrow> address \<Rightarrow> int \<Rightarrow> amount_result" where
  "DelegationOutstandingSCoin chain addr valID =
     (case NewSfcTokenizer chain (TokenizerContract (sfcConfig chain)) of
        Panics \<Rightarrow> Panics
      | Returns (contract, err) \<Rightarrow>
          if err \<noteq> None then Returns (None, err)
          else
            (case contract of
               None \<Rightarrow> Panics
             | Some c \<Rightarrow> OutstandingSCoin c addr valID))"

definition DelegationTokenizerUnlocked ::
  "ChainBridge \<Rightarrow> address \<Rightarrow> int \<Rightarrow> (bool \<times> error option) outcome" where
  "DelegationTokenizerUnlocked chain addr valID =
     (case NewSfcTokenizer chain (TokenizerContract (sfcConfig chain)) of
        Panics \<Rightarrow> Panics
      | Returns (contract, err) \<Rightarrow>
          if err \<noteq> None then Returns (False, err)
          else
            (case contract of
               None \<Rightarrow> Panics
             | Some c \<Rightarrow>
                 (case AllowedToWithdrawStake c addr valID of
                    Panics \<Rightarrow> Panics
                  | Returns (lock, err) \<Rightarrow>
                      if err \<noteq> None then Returns (False, err)
                      else Returns (lock, None))))"


section \<open>A sample bridge\<close>

text \<open>
  A bridge whose collaborators answer by the validator id (for the contract reads) and by
  the sender address (for the simulated call), so that every branch of the queries can be
  run on it. Its \<open>GetLockupInfo\<close> panics when it is handed a nil validator id.
\<close>

definition sample_lockup :: "int \<Rightarrow> (LockupInfo \<times> error option) outcome" where
  "sample_lockup v =
     (if v = 1 then
        Returns (\<lparr>LockedStake = Some 10, FromEpoch = Some 3, EndTime = Some 20,
                  LockDuration = Some 30\<rparr>, None)
      else if v = 2 then
        Returns (\<lparr>LockedStake = Some 10, FromEpoch = None, EndTime = Some 20,
                  LockDuration = Some 30\<rparr>, None)
      else if v = 3 then Panics
      else if v = 4 then
        Returns (\<lparr>LockedStake = Some 10, FromEpoch = Some 3, EndTime = Some 20,
                  LockDuration = None\<rparr>, None)
      else if v = 5 then
        Returns (\<lparr>LockedStake = Some 10, FromEpoch = Some 18446744073709551616,
                  EndTime = Some 20, LockDuration = Some 30\<rparr>, None)
      else if v = 6 then
        Returns (\<lparr>LockedStake = None, FromEpoch = Some 3, EndTime = Some 20,
                  LockDuration = Some 30\<rparr>, None)
      else
        Returns (\<lparr>LockedStake = None, FromEpoch = None, EndTime = None,
                  LockDuration = None\<rparr>, Some (Error ''execution reverted'')))"

definition sample_sfc :: SfcContract where
  "sample_sfc =
     \<lparr>GetStake = (\<lambda>a v. Returns (Some 700, None)),
      GetLockedStake = (\<lambda>a v. Returns (None, Some (Error ''execution reverted''))),
      GetUnlockedStake = (\<lambda>a v. Returns (Some 0, None)),
      ContractPendingRewards =
        (\<lambda>a v. if v = 1 then Returns (Some 55, None)
               else Returns (None, Some (Error ''execution reverted''))),
      GetLockupInfo = (\<lambda>a v. case v of None \<Rightarrow> Panics | Some n \<Rightarrow> sample_lockup n)\<rparr>"

definition sample_tokenizer :: SfcTokenizer where
  "sample_tokenizer =
     \<lparr>OutstandingSCoin = (\<lambda>a v. Returns (Some 0, None)),
      AllowedToWithdrawStake =
        (\<lambda>a v. if v = 1 then Returns (True, None)
               else Returns (True, Some (Error ''execution reverted'')))\<rparr>"

definition sample_word :: "byte list" where
  "sample_word =
     [0, 0, 0, 0, 0, 0, 0, 0, 0, 0, 0, 0, 0, 0, 0, 0,
      0, 0, 0, 0, 0, 0, 0, 0, 0, 0, 0, 0, 0, 0, 1, 2]"

definition sample_bridge :: ChainBridge where
  "sample_bridge =
     \<lparr>sfcConfig = \<lparr>SFCContract = 64, TokenizerContract = 65\<rparr>,
      SfcContract = sample_sfc,
      SfcAbiPack =
        (\<lambda>name args. if name = ''unlockStake'' \<and> length args = 2
                      then Returns ([29, 63, 171, 225], None)
                      else Returns ([], Some (Error ''method not found''))),
      CallContract =
        (\<lambda>msg blk. if From msg = 1 then Returns (sample_word, None)
                   else if From msg = 2 then Returns ([1, 2, 3], None)
                   else Returns ([], Some (Error ''call failed''))),
      NewSfcTokenizer = (\<lambda>a. Returns (Some sample_tokenizer, None))\<rparr>"


section \<open>Facts about the decoders\<close>

lemma SetBytes_snoc: "SetBytes (buf @ [b]) = SetBytes buf * 256 + uint b"
  by (simp add: SetBytes_def)

text \<open>\<open>SetBytes\<close> is the big-endian reading: byte \<open>i\<close> weighs \<open>256 ^ (n - 1 - i)\<close>.\<close>

lemma SetBytes_big_endian:
  "SetBytes buf = (\<Sum>i<length buf. uint (buf ! i) * 256 ^ (length buf - 1 - i))"
proof (induction buf rule: rev_induct)
  case Nil
  show ?case by (simp add: SetBytes_def)
next
  case (snoc b buf)
  have "(\<Sum>i<length buf. uint ((buf @ [b]) ! i) * 256 ^ (length buf - i))
        = (\<Sum>i<length buf. (uint (buf ! i) * 256 ^ (length buf - 1 - i)) * 256)"
  proof (rule sum.cong)
    fix i assume "i \<in> {..<length buf}"
    then have lt: "i < length buf" by simp
    then have "length buf - i = Suc (length buf - 1 - i)" by simp
    then show "uint ((buf @ [b]) ! i) * 256 ^ (length buf - i)
               = (uint (buf ! i) * 256 ^ (length buf - 1 - i)) * 256"
      using lt by (simp add: nth_append)
  qed simp
  then show ?case
    using snoc.IH by (simp add: SetBytes_snoc sum_distrib_right)
qed

lemma SetBytes_nonneg: "0 \<le> SetBytes buf"
  by (induction buf rule: rev_induct) (simp_all add: SetBytes_def)

lemma SetBytes_bound: "SetBytes buf < 256 ^ length buf"
proof (induction buf rule: rev_induct)
  case Nil
  show ?case by (simp add: SetBytes_def)
next
  case (snoc b buf)
  have "uint b < 256" using uint_bounded [of b] by simp
  moreover have "SetBytes buf + 1 \<le> 256 ^ length buf" using snoc.IH by simp
  then have "(SetBytes buf + 1) * 256 \<le> 256 ^ length buf * 256"
    by (rule mult_right_mono) simp
  ultimately show ?case by (simp add: SetBytes_snoc algebra_simps)
qed

lemma uint_Uint64: "uint (Uint64 x) = \<bar>x\<bar> mod 2 ^ 64"
  by (simp add: Uint64_def uint_word_of_int_eq take_bit_eq_mod)

lemma uint_Uint64_exact: "0 \<le> x \<Longrightarrow> x < 2 ^ 64 \<Longrightarrow> uint (Uint64 x) = x"
  by (simp add: uint_Uint64)

lemma SetBytes_sample_word: "SetBytes sample_word = 258"
  by (simp add: SetBytes_def sample_word_def)

lemma sample_lockup_bridge:
  "GetLockupInfo (SfcContract sample_bridge) a (Some v) = sample_lockup v"
  by (simp add: sample_bridge_def sample_sfc_def)

lemma sample_lockup_bridge_nil: "GetLockupInfo (SfcContract sample_bridge) a None = Panics"
  by (simp add: sample_bridge_def sample_sfc_def)

section \<open>The stake amounts\<close>

text \<open>
  Claim C5. For every address and validator id, when the contract read succeeds,
  \<open>AmountStaked\<close>, \<open>AmountStakeLocked\<close> and \<open>AmountStakeUnlocked\<close> each return, without an
  error, the integer the binding returned, untouched; when the read fails, each returns
  the binding's error (and result) unchanged.
\<close>

theorem Amounts_forwarded:
  "(GetStake (SfcContract chain) addr valID = Returns (Some n, None)
      \<longrightarrow> AmountStaked chain addr valID = Returns (Some n, None))
   \<and> (GetStake (SfcContract chain) addr valID = Returns (r, Some e)
      \<longrightarrow> AmountStaked chain addr valID = Returns (r, Some e))
   \<and> (GetLockedStake (SfcContract chain) addr valID = Returns (Some n, None)
      \<longrightarrow> AmountStakeLocked chain addr valID = Returns (Some n, None))
   \<and> (GetLockedStake (SfcContract chain) addr valID = Returns (r, Some e)
      \<longrightarrow> AmountStakeLocked chain addr valID = Returns (r, Some e))
   \<and> (GetUnlockedStake (SfcContract chain) addr valID = Returns (Some n, None)
      \<longrightarrow> AmountStakeUnlocked chain addr valID = Returns (Some n, None))
   \<and> (GetUnlockedStake (SfcContract chain) addr valID = Returns (r, Some e)
      \<longrightarrow> AmountStakeUnlocked chain addr valID = Returns (r, Some e))"
  by (simp add: AmountStaked_def AmountStakeLocked_def AmountStakeUnlocked_def)

theorem Amounts_forwarded_witness:
  "GetStake (SfcContract sample_bridge) 5 1 = Returns (Some 700, None)
   \<and> AmountStaked sample_bridge 5 1 = Returns (Some 700, None)
   \<and> GetLockedStake (SfcContract sample_bridge) 5 1
       = Returns (None, Some (Error ''execution reverted''))
   \<and> AmountStakeLocked sample_bridge 5 1
       = Returns (None, Some (Error ''execution reverted''))
   \<and> GetUnlockedStake (SfcContract sample_bridge) 5 1 = Returns (Some 0, None)
   \<and> AmountStakeUnlocked sample_bridge 5 1 = Returns (Some 0, None)"
proof -
  have g: "GetStake (SfcContract sample_bridge) 5 1 = Returns (Some 700, None)"
    by (simp add: sample_bridge_def sample_sfc_def)
  have l: "GetLockedStake (SfcContract sample_bridge) 5 1
       = Returns (None, Some (Error ''execution reverted''))"
    by (simp add: sample_bridge_def sample_sfc_def)
  have u: "GetUnlockedStake (SfcContract sample_bridge) 5 1 = Returns (Some 0, None)"
    by (simp add: sample_bridge_def sample_sfc_def)
  show ?thesis
    using Amounts_forwarded [of sample_bridge 5 1 700 None "Error ''execution reverted''"]
      Amounts_forwarded [of sample_bridge 5 1 0 None "Error ''execution reverted''"] g l u
    by simp
qed

section \<open>The unlock penalty\<close>

text \<open>
  Whatever the bridge, a response of the wrong size that came without an error leaves
  \<open>StakeUnlockPenalty\<close> with neither a value nor an error.
\<close>

lemma StakeUnlockPenalty_wrong_size:
  assumes "SfcAbiPack chain ''unlockStake'' [valID, amount] = Returns (cd, None)"
    and "CallContract chain
           \<lparr>From = addr, To = Some (SFCContract (sfcConfig chain)), Data = cd\<rparr> None
         = Returns (data, None)"
    and "length data \<noteq> 32"
  shows "StakeUnlockPenalty chain addr valID amount = Returns (None, None)"
  using assms by (simp add: StakeUnlockPenalty_def)

text \<open>
  Claim C1 asks that \<open>StakeUnlockPenalty\<close> return a non-nil error whenever packing and the
  simulated call succeed and the response is not 32 bytes long. On the sample bridge the
  sender \<open>2\<close> gets the three byte response \<open>[1, 2, 3]\<close> with a nil error, and the method
  returns a nil value together with a nil error.
\<close>

theorem StakeUnlockPenalty_short_response_nil_error:
  "StakeUnlockPenalty sample_bridge 2 1 1 = Returns (None, None)"
  by (simp add: StakeUnlockPenalty_def sample_bridge_def)

text \<open>
  Claim C6. When packing succeeds, the simulated call succeeds and the response is
  exactly 32 bytes, \<open>StakeUnlockPenalty\<close> returns without error the number those bytes
  spell in big-endian order: byte \<open>i\<close> contributes \<open>data ! i * 256 ^ (31 - i)\<close>.
\<close>

theorem StakeUnlockPenalty_decodes_word:
  assumes pack: "SfcAbiPack chain ''unlockStake'' [valID, amount] = Returns (cd, None)"
    and call: "CallContract chain
                 \<lparr>From = addr, To = Some (SFCContract (sfcConfig chain)), Data = cd\<rparr> None
               = Returns (data, None)"
    and len: "length data = 32"
  shows "StakeUnlockPenalty chain addr valID amount
         = Returns (Some (\<Sum>i<32. uint (data ! i) * 256 ^ (31 - i)), None)"
proof -
  have "StakeUnlockPenalty chain addr valID amount = Returns (Some (SetBytes data), None)"
    using pack call len by (simp add: StakeUnlockPenalty_def)
  moreover have "SetBytes data = (\<Sum>i<32. uint (data ! i) * 256 ^ (31 - i))"
    using SetBytes_big_endian [of data] len by simp
  ultimately show ?thesis by simp
qed

theorem StakeUnlockPenalty_decodes_word_witness:
  "SfcAbiPack sample_bridge ''unlockStake'' [7, 9] = Returns ([29, 63, 171, 225], None)
   \<and> CallContract sample_bridge
         \<lparr>From = 1, To = Some (SFCContract (sfcConfig sample_bridge)),
          Data = [29, 63, 171, 225]\<rparr> None = Returns (sample_word, None)
   \<and> length sample_word = 32
   \<and> StakeUnlockPenalty sample_bridge 1 7 9 = Returns (Some 258, None)"
proof -
  have pack: "SfcAbiPack sample_bridge ''unlockStake'' [7, 9]
              = Returns ([29, 63, 171, 225], None)"
    by (simp add: sample_bridge_def)
  have call: "CallContract sample_bridge
         \<lparr>From = 1, To = Some (SFCContract (sfcConfig sample_bridge)),
          Data = [29, 63, 171, 225]\<rparr> None = Returns (sample_word, None)"
    by (simp add: sample_bridge_def)
  have len: "length sample_word = 32"
    by (simp add: sample_word_def)
  have "(\<Sum>i<32. uint (sample_word ! i) * 256 ^ (31 - i)) = 258"
    using SetBytes_big_endian [of sample_word] len SetBytes_sample_word by simp
  then show ?thesis
    using StakeUnlockPenalty_decodes_word [OF pack call len] pack call len by simp
qed


section \<open>Pending rewards\<close>

text \<open>
  Claim C2. For every address and validator id, \<open>PendingRewards\<close> never returns a non-nil
  error; when the contract query fails, it returns the prepared record, whose amount is
  zero, with a nil error.
\<close>

theorem PendingRewards_never_errors:
  "PendingRewards chain addr valID \<noteq> Returns (r, Some e)
   \<and> (ContractPendingRewards (SfcContract chain) addr valID = Returns (amo, Some e')
        \<longrightarrow> PendingRewards chain addr valID
            = Returns (Some \<lparr>Address = addr, Staker = valID, Amount = 0\<rparr>, None))"
  by (auto simp add: PendingRewards_def Let_def split: outcome.splits option.splits)

theorem PendingRewards_never_errors_witness:
  "ContractPendingRewards (SfcContract sample_bridge) 5 2
     = Returns (None, Some (Error ''execution reverted''))
   \<and> PendingRewards sample_bridge 5 2
     = Returns (Some \<lparr>Address = 5, Staker = 2, Amount = 0\<rparr>, None)"
proof -
  have q: "ContractPendingRewards (SfcContract sample_bridge) 5 2
     = Returns (None, Some (Error ''execution reverted''))"
    by (simp add: sample_bridge_def sample_sfc_def)
  show ?thesis
    using PendingRewards_never_errors [of sample_bridge 5 2 None "Error ''execution reverted''"
        None "Error ''execution reverted''"] q
    by simp
qed

text \<open>
  Claim C9. Whenever \<open>PendingRewards\<close> returns, after a successful query and after a
  failed one alike, the record it returns carries the caller's address in \<open>Address\<close> and
  the caller's validator id in \<open>Staker\<close>.
\<close>

theorem PendingRewards_keeps_inputs:
  assumes "PendingRewards chain addr valID = Returns (r, e)"
  shows "\<exists>pr. r = Some pr \<and> Address pr = addr \<and> Staker pr = valID"
  using assms
  by (auto simp add: PendingRewards_def Let_def split: outcome.splits option.splits if_splits)

theorem PendingRewards_keeps_inputs_witness:
  "PendingRewards sample_bridge 5 1
     = Returns (Some \<lparr>Address = 5, Staker = 1, Amount = 55\<rparr>, None)
   \<and> (\<exists>pr. Some \<lparr>Address = 5, Staker = 1, Amount = 55\<rparr> = Some pr
          \<and> Address pr = 5 \<and> Staker pr = 1)
   \<and> PendingRewards sample_bridge 6 2
     = Returns (Some \<lparr>Address = 6, Staker = 2, Amount = 0\<rparr>, None)
   \<and> (\<exists>pr. Some \<lparr>Address = 6, Staker = 2, Amount = 0\<rparr> = Some pr
          \<and> Address pr = 6 \<and> Staker pr = 2)"
proof -
  have ok: "PendingRewards sample_bridge 5 1
     = Returns (Some \<lparr>Address = 5, Staker = 1, Amount = 55\<rparr>, None)"
    by (simp add: PendingRewards_def sample_bridge_def sample_sfc_def)
  have failed: "PendingRewards sample_bridge 6 2
     = Returns (Some \<lparr>Address = 6, Staker = 2, Amount = 0\<rparr>, None)"
    by (simp add: PendingRewards_def sample_bridge_def sample_sfc_def)
  from PendingRewards_keeps_inputs [OF ok] PendingRewards_keeps_inputs [OF failed] ok failed
  show ?thesis by simp
qed

section \<open>The tokenizer lock\<close>

text \<open>
  Claim C8. Whenever \<open>DelegationTokenizerUnlocked\<close> returns a non-nil error (the
  tokenizer binding could not be made, or the lock query failed), the boolean returned
  with it is false, whatever the binding answered.
\<close>

theorem DelegationTokenizerUnlocked_error_false:
  assumes "DelegationTokenizerUnlocked chain addr valID = Returns (b, Some e)"
  shows "b = False"
  using assms
  by (auto simp add: DelegationTokenizerUnlocked_def
           split: outcome.splits option.splits if_splits)

theorem DelegationTokenizerUnlocked_error_false_witness:
  "AllowedToWithdrawStake sample_tokenizer 5 2
     = Returns (True, Some (Error ''execution reverted''))
   \<and> DelegationTokenizerUnlocked sample_bridge 5 2
     = Returns (False, Some (Error ''execution reverted''))"
proof -
  have r: "DelegationTokenizerUnlocked sample_bridge 5 2
     = Returns (False, Some (Error ''execution reverted''))"
    by (simp add: DelegationTokenizerUnlocked_def sample_bridge_def sample_tokenizer_def)
  from DelegationTokenizerUnlocked_error_false [OF r] r show ?thesis
    by (simp add: sample_tokenizer_def)
qed

section \<open>The delegation lock\<close>

text \<open>
  Claim C4. When \<open>GetLockupInfo\<close> succeeds but \<open>FromEpoch\<close> or \<open>EndTime\<close> is nil,
  \<open>DelegationLock\<close> returns no record and the error "delegation lock missing".
\<close>

theorem DelegationLock_missing_timing:
  assumes "GetLockupInfo (SfcContract chain) addr valID = Returns (lock, None)"
    and "FromEpoch lock = None \<or> EndTime lock = None"
  shows "DelegationLock chain (Some addr) valID
         = Returns (None, Some (Error ''delegation lock missing''))"
  using assms
  by (auto simp add: DelegationLock_def DelegationLock_body_def DelegationLock_deferred_def
           split: option.splits)

theorem DelegationLock_missing_timing_witness:
  "GetLockupInfo (SfcContract sample_bridge) 5 (Some 2)
     = Returns (\<lparr>LockedStake = Some 10, FromEpoch = None, EndTime = Some 20,
                 LockDuration = Some 30\<rparr>, None)
   \<and> DelegationLock sample_bridge (Some 5) (Some 2)
     = Returns (None, Some (Error ''delegation lock missing''))"
proof -
  have q: "GetLockupInfo (SfcContract sample_bridge) 5 (Some 2)
     = Returns (\<lparr>LockedStake = Some 10, FromEpoch = None, EndTime = Some 20,
                 LockDuration = Some 30\<rparr>, None)"
    by (simp add: sample_lockup_bridge sample_lockup_def)
  show ?thesis
    using DelegationLock_missing_timing [OF q] q by simp
qed

text \<open>
  Claim C3 says that \<open>DelegationLock\<close> never lets a panic of the \<open>GetLockupInfo\<close> call
  reach its caller. On the sample bridge the call with a nil validator id panics inside
  the binding; the deferred function recovers, faults in its own log line on the same
  nil pointer, and the panic leaves \<open>DelegationLock\<close>.
\<close>

theorem DelegationLock_nil_validator_counterexample:
  "GetLockupInfo (SfcContract sample_bridge) 5 None = Panics
   \<and> DelegationLock sample_bridge (Some 5) None = Panics"
  by (simp add: sample_lockup_bridge_nil DelegationLock_def DelegationLock_body_def
        DelegationLock_deferred_def)

text \<open>
  Claim C3, amended. For a non-nil validator id: when the \<open>GetLockupInfo\<close> call panics,
  or when it succeeds with both timing fields present and the assembly of the record then
  faults (a nil \<open>LockedStake\<close> or a nil \<open>Duration\<close>), \<open>DelegationLock\<close> does not panic: it
  returns the zero-valued record.
\<close>

theorem DelegationLock_recovers:
  assumes "GetLockupInfo (SfcContract chain) addr (Some valID) = Panics
           \<or> (GetLockupInfo (SfcContract chain) addr (Some valID) = Returns (lock, None)
               \<and> FromEpoch lock = Some fromEpoch \<and> EndTime lock = Some endTime
               \<and> (LockedStake lock = None \<or> LockDuration lock = None))"
  shows "DelegationLock chain (Some addr) (Some valID) \<noteq> Panics
         \<and> (\<exists>err. DelegationLock chain (Some addr) (Some valID)
                    = Returns (Some DelegationLock_zero, err))"
  using assms
  by (auto simp add: DelegationLock_def DelegationLock_body_def DelegationLock_deferred_def
           split: option.splits)

theorem DelegationLock_recovers_witness:
  "GetLockupInfo (SfcContract sample_bridge) 5 (Some 3) = Panics
   \<and> DelegationLock sample_bridge (Some 5) (Some 3) \<noteq> Panics
   \<and> (\<exists>err. DelegationLock sample_bridge (Some 5) (Some 3)
              = Returns (Some DelegationLock_zero, err))
   \<and> GetLockupInfo (SfcContract sample_bridge) 5 (Some 4)
       = Returns (\<lparr>LockedStake = Some 10, FromEpoch = Some 3, EndTime = Some 20,
                   LockDuration = None\<rparr>, None)
   \<and> DelegationLock sample_bridge (Some 5) (Some 4) \<noteq> Panics
   \<and> (\<exists>err. DelegationLock sample_bridge (Some 5) (Some 4)
              = Returns (Some DelegationLock_zero, err))"
proof -
  let ?lock = "\<lparr>LockedStake = Some 10, FromEpoch = Some 3, EndTime = Some 20,
                 LockDuration = None\<rparr>"
  have p: "GetLockupInfo (SfcContract sample_bridge) 5 (Some 3) = Panics"
    by (simp add: sample_lockup_bridge sample_lockup_def)
  have q: "GetLockupInfo (SfcContract sample_bridge) 5 (Some 4) = Returns (?lock, None)"
    by (simp add: sample_lockup_bridge sample_lockup_def)
  have h3: "GetLockupInfo (SfcContract sample_bridge) 5 (Some 3) = Panics
           \<or> (GetLockupInfo (SfcContract sample_bridge) 5 (Some 3) = Returns (?lock, None)
               \<and> FromEpoch ?lock = Some 3 \<and> EndTime ?lock = Some 20
               \<and> (LockedStake ?lock = None \<or> LockDuration ?lock = None))"
    using p by simp
  have h4: "GetLockupInfo (SfcContract sample_bridge) 5 (Some 4) = Panics
           \<or> (GetLockupInfo (SfcContract sample_bridge) 5 (Some 4) = Returns (?lock, None)
               \<and> FromEpoch ?lock = Some 3 \<and> EndTime ?lock = Some 20
               \<and> (LockedStake ?lock = None \<or> LockDuration ?lock = None))"
    using q by simp
  from DelegationLock_recovers [OF h3] DelegationLock_recovers [OF h4] p q
  show ?thesis by simp
qed

text \<open>
  Claim C7 says that, when \<open>GetLockupInfo\<close> succeeds and both timing fields are present,
  the record returned holds the four values of the contract call. Two runs of the sample
  bridge show otherwise. For validator \<open>5\<close> the contract answers \<open>FromEpoch = 2 ^ 64\<close> and
  the record holds the epoch \<open>0\<close>: the three timing fields are 64 bit words. For validator
  \<open>4\<close> the contract answers with a nil \<open>Duration\<close>, the assembly faults and the recovered
  result is the zero record, although the contract returned a locked stake of \<open>10\<close>.
\<close>

theorem DelegationLock_fields_counterexample:
  "GetLockupInfo (SfcContract sample_bridge) 5 (Some 5)
     = Returns (\<lparr>LockedStake = Some 10, FromEpoch = Some 18446744073709551616,
                 EndTime = Some 20, LockDuration = Some 30\<rparr>, None)
   \<and> DelegationLock sample_bridge (Some 5) (Some 5)
     = Returns (Some \<lparr>LockedAmount = 10, LockedFromEpoch = 0, LockedUntil = 20,
                      Duration = 30\<rparr>, None)
   \<and> uint (0 :: uint64) \<noteq> 18446744073709551616
   \<and> GetLockupInfo (SfcContract sample_bridge) 5 (Some 4)
     = Returns (\<lparr>LockedStake = Some 10, FromEpoch = Some 3, EndTime = Some 20,
                 LockDuration = None\<rparr>, None)
   \<and> DelegationLock sample_bridge (Some 5) (Some 4)
     = Returns (Some \<lparr>LockedAmount = 0, LockedFromEpoch = 0, LockedUntil = 0,
                      Duration = 0\<rparr>, None)"
  by (simp add: sample_lockup_bridge sample_lockup_def DelegationLock_def
        DelegationLock_body_def DelegationLock_deferred_def DelegationLock_zero_def Uint64_def)

text \<open>
  Claim C7, amended. When \<open>GetLockupInfo\<close> succeeds and all four fields of its answer are
  present, \<open>DelegationLock\<close> returns without error a record whose locked amount is the
  \<open>LockedStake\<close> returned and whose epoch lock started, unlock timestamp and lock duration
  are the magnitudes of \<open>FromEpoch\<close>, \<open>EndTime\<close> and \<open>Duration\<close> reduced modulo \<open>2 ^ 64\<close>;
  so they equal the values returned whenever those lie between \<open>0\<close> and \<open>2 ^ 64 - 1\<close>.
\<close>

theorem DelegationLock_assembled:
  assumes "GetLockupInfo (SfcContract chain) addr valID = Returns (lock, None)"
    and "LockedStake lock = Some lockedStake"
    and "FromEpoch lock = Some fromEpoch"
    and "EndTime lock = Some endTime"
    and "LockDuration lock = Some duration"
  shows "\<exists>dll. DelegationLock chain (Some addr) valID = Returns (Some dll, None)
           \<and> LockedAmount dll = lockedStake
           \<and> uint (LockedFromEpoch dll) = \<bar>fromEpoch\<bar> mod 2 ^ 64
           \<and> uint (LockedUntil dll) = \<bar>endTime\<bar> mod 2 ^ 64
           \<and> uint (Duration dll) = \<bar>duration\<bar> mod 2 ^ 64
           \<and> (0 \<le> fromEpoch \<and> fromEpoch < 2 ^ 64 \<longrightarrow> uint (LockedFromEpoch dll) = fromEpoch)
           \<and> (0 \<le> endTime \<and> endTime < 2 ^ 64 \<longrightarrow> uint (LockedUntil dll) = endTime)
           \<and> (0 \<le> duration \<and> duration < 2 ^ 64 \<longrightarrow> uint (Duration dll) = duration)"
  using assms
  by (simp add: DelegationLock_def DelegationLock_body_def DelegationLock_deferred_def
        uint_Uint64)

theorem DelegationLock_assembled_witness:
  "GetLockupInfo (SfcContract sample_bridge) 5 (Some 1)
     = Returns (\<lparr>LockedStake = Some 10, FromEpoch = Some 3, EndTime = Some 20,
                 LockDuration = Some 30\<rparr>, None)
   \<and> DelegationLock sample_bridge (Some 5) (Some 1)
     = Returns (Some \<lparr>LockedAmount = 10, LockedFromEpoch = 3, LockedUntil = 20,
                      Duration = 30\<rparr>, None)"
proof -
  let ?lock = "\<lparr>LockedStake = Some 10, FromEpoch = Some 3, EndTime = Some 20,
                 LockDuration = Some (30::int)\<rparr>"
  have q: "GetLockupInfo (SfcContract sample_bridge) 5 (Some 1) = Returns (?lock, None)"
    by (simp add: sample_lockup_bridge sample_lockup_def)
  from DelegationLock_assembled [OF q, of 10 3 20 30]
  obtain dll where d: "DelegationLock sample_bridge (Some 5) (Some 1) = Returns (Some dll, None)"
    and f: "LockedAmount dll = 10" "uint (LockedFromEpoch dll) = 3"
      "uint (LockedUntil dll) = 20" "uint (Duration dll) = 30"
    by auto
  have "LockedFromEpoch dll = 3" "LockedUntil dll = 20" "Duration dll = 30"
    using f by (simp_all add: word_uint_eq_iff)
  then have "dll = \<lparr>LockedAmount = 10, LockedFromEpoch = 3, LockedUntil = 20, Duration = 30\<rparr>"
    using f(1) by (cases dll) simp
  then show ?thesis using d q by simp
qed

text \<open>
  Claim C10. Whenever the body of \<open>DelegationLock\<close> ends in a panic and \<open>DelegationLock\<close>
  returns, the record returned is the zero-valued one and the error returned with it is
  nil; with a non-nil address and validator id it always returns so. The body ends in a
  panic when \<open>GetLockupInfo\<close> panics, and also when it answers with both timing fields
  and a nil \<open>LockedStake\<close>. A query that succeeds with four zero fields returns the very
  same pair, so a caller cannot tell the recovered fault from a successful query.
\<close>

theorem DelegationLock_recovery_hides_fault:
  "(DelegationLock_body chain paddr pvalID = Faulted st
        \<and> DelegationLock chain paddr pvalID = Returns (dll, err)
      \<longrightarrow> dll = Some DelegationLock_zero \<and> err = None)
   \<and> (DelegationLock_body chain (Some addr) (Some v) = Faulted st
      \<longrightarrow> DelegationLock chain (Some addr) (Some v)
          = Returns (Some DelegationLock_zero, None))
   \<and> (GetLockupInfo (SfcContract chain) addr valID = Panics
      \<longrightarrow> DelegationLock_body chain (Some addr) valID = Faulted (None, None))
   \<and> (GetLockupInfo (SfcContract chain) addr valID = Returns (lock, None)
        \<and> FromEpoch lock = Some fromEpoch \<and> EndTime lock = Some endTime
        \<and> LockedStake lock = None
      \<longrightarrow> DelegationLock_body chain (Some addr) valID = Faulted (None, None))
   \<and> (\<exists>chain'. DelegationLock_body chain' (Some addr) valID
                 = Normal (Some DelegationLock_zero, None)
        \<and> DelegationLock chain' (Some addr) valID
                 = Returns (Some DelegationLock_zero, None))"
proof (intro conjI impI)
  assume "DelegationLock_body chain paddr pvalID = Faulted st
        \<and> DelegationLock chain paddr pvalID = Returns (dll, err)"
  then show "dll = Some DelegationLock_zero" and "err = None"
    by (auto simp add: DelegationLock_def DelegationLock_body_def DelegationLock_deferred_def
           split: outcome.splits option.splits if_splits prod.splits)
next
  assume "DelegationLock_body chain (Some addr) (Some v) = Faulted st"
  then show "DelegationLock chain (Some addr) (Some v)
             = Returns (Some DelegationLock_zero, None)"
    by (auto simp add: DelegationLock_def DelegationLock_body_def DelegationLock_deferred_def
           split: outcome.splits option.splits if_splits prod.splits)
next
  assume "GetLockupInfo (SfcContract chain) addr valID = Panics"
  then show "DelegationLock_body chain (Some addr) valID = Faulted (None, None)"
    by (simp add: DelegationLock_body_def)
next
  assume "GetLockupInfo (SfcContract chain) addr valID = Returns (lock, None)
        \<and> FromEpoch lock = Some fromEpoch \<and> EndTime lock = Some endTime
        \<and> LockedStake lock = None"
  then show "DelegationLock_body chain (Some addr) valID = Faulted (None, None)"
    by (simp add: DelegationLock_body_def)
next
  let ?c = "chain\<lparr>SfcContract := (SfcContract chain)\<lparr>GetLockupInfo :=
              \<lambda>a v. Returns (\<lparr>LockedStake = Some 0, FromEpoch = Some 0, EndTime = Some 0,
                               LockDuration = Some 0\<rparr>, None)\<rparr>\<rparr>"
  have "DelegationLock_body ?c (Some addr) valID = Normal (Some DelegationLock_zero, None)"
    by (simp add: DelegationLock_body_def DelegationLock_zero_def Uint64_def)
  then show "\<exists>chain'. DelegationLock_body chain' (Some addr) valID
                 = Normal (Some DelegationLock_zero, None)
        \<and> DelegationLock chain' (Some addr) valID
                 = Returns (Some DelegationLock_zero, None)"
    by (auto simp add: DelegationLock_def DelegationLock_deferred_def)
qed

theorem DelegationLock_recovery_hides_fault_witness:
  "GetLockupInfo (SfcContract sample_bridge) 5 (Some 6)
     = Returns (\<lparr>LockedStake = None, FromEpoch = Some 3, EndTime = Some 20,
                 LockDuration = Some 30\<rparr>, None)
   \<and> DelegationLock_body sample_bridge (Some 5) (Some 6) = Faulted (None, None)
   \<and> DelegationLock sample_bridge (Some 5) (Some 6) = Returns (Some DelegationLock_zero, None)
   \<and> GetLockupInfo (SfcContract sample_bridge) 5 (Some 3) = Panics
   \<and> DelegationLock_body sample_bridge (Some 5) (Some 3) = Faulted (None, None)
   \<and> DelegationLock sample_bridge (Some 5) (Some 3) = Returns (Some DelegationLock_zero, None)"
proof -
  let ?lock = "\<lparr>LockedStake = None, FromEpoch = Some 3, EndTime = Some 20,
                 LockDuration = Some (30::int)\<rparr>"
  have q: "GetLockupInfo (SfcContract sample_bridge) 5 (Some 6) = Returns (?lock, None)"
    by (simp add: sample_lockup_bridge sample_lockup_def)
  have p: "GetLockupInfo (SfcContract sample_bridge) 5 (Some 3) = Panics"
    by (simp add: sample_lockup_bridge sample_lockup_def)
  have b6: "DelegationLock_body sample_bridge (Some 5) (Some 6) = Faulted (None, None)"
    using DelegationLock_recovery_hides_fault
      [of sample_bridge "Some 5" "Some 6" "(None, None)" None None 5 6 "Some 6" ?lock 3 20] q
    by simp
  have b3: "DelegationLock_body sample_bridge (Some 5) (Some 3) = Faulted (None, None)"
    using DelegationLock_recovery_hides_fault
      [of sample_bridge "Some 5" "Some 3" "(None, None)" None None 5 3 "Some 3"] p
    by simp
  show ?thesis
    using DelegationLock_recovery_hides_fault
        [of sample_bridge "Some 5" "Some 6" "(None, None)" None None 5 6 "Some 6"]
      DelegationLock_recovery_hides_fault
        [of sample_bridge "Some 5" "Some 3" "(None, None)" None None 5 3 "Some 3"] b6 b3 p q
    by simp
qed

end
